theory Spec2Isabelle
  imports Main
begin

section \<open>Python strings\<close>

text \<open>
  A Python \<open>str\<close> is modelled as a \<open>string\<close> whose characters are the code points
  0..255; \<open>bytes\<close> is a list of characters as well. The operations below are the ones
  the handlers call: \<open>str.split(sep)\<close>, \<open>str.strip()\<close>, \<open>str.lower()\<close>,
  \<open>str.rfind(c)\<close>, \<open>str(int)\<close> and \<open>repr\<close> of a string and of a list of strings.
\<close>

type_synonym bytes = "char list"

fun split_py :: "char \<Rightarrow> string \<Rightarrow> string list" where
  "split_py sep [] = [[]]"
| "split_py sep (c # cs) =
     (if c = sep then [] # split_py sep cs
      else (case split_py sep cs of
              [] \<Rightarrow> [[c]]
            | p # ps \<Rightarrow> (c # p) # ps))"

definition isspace :: "char \<Rightarrow> bool" where
  "isspace c =
     (let n = (of_char c :: nat)
      in (9 \<le> n \<and> n \<le> 13) \<or> (28 \<le> n \<and> n \<le> 32) \<or> n = 133 \<or> n = 160)"

definition strip :: "string \<Rightarrow> string" where
  "strip s = rev (dropWhile isspace (rev (dropWhile isspace s)))"

definition lower_char :: "char \<Rightarrow> char" where
  "lower_char c =
     (let n = (of_char c :: nat)
      in if (65 \<le> n \<and> n \<le> 90) \<or> (192 \<le> n \<and> n \<le> 222 \<and> n \<noteq> 215)
         then char_of (n + 32) else c)"

definition lower :: "string \<Rightarrow> string" where
  "lower s = map lower_char s"

definition rfind :: "char \<Rightarrow> string \<Rightarrow> int" where
  "rfind c s =
     (if c \<in> set s
      then int (length s) - 1 - int (length (takeWhile (\<lambda>x. x \<noteq> c) (rev s)))
      else - 1)"

definition digit_char :: "nat \<Rightarrow> char" where
  "digit_char d = char_of (48 + d)"

fun str_nat :: "nat \<Rightarrow> string" where
  "str_nat n = (if n < 10 then [digit_char n] else str_nat (n div 10) @ [digit_char (n mod 10)])"

definition str_int :: "int \<Rightarrow> string" where
  "str_int i = (if i < 0 then CHR ''-'' # str_nat (nat (- i)) else str_nat (nat i))"

definition hex_char :: "nat \<Rightarrow> char" where
  "hex_char d = (if d < 10 then char_of (48 + d) else char_of (87 + d))"

definition isprintable :: "char \<Rightarrow> bool" where
  "isprintable c =
     (let n = (of_char c :: nat)
      in (32 \<le> n \<and> n \<le> 126) \<or> (161 \<le> n \<and> n \<noteq> 173))"

definition repr_char :: "char \<Rightarrow> char \<Rightarrow> string" where
  "repr_char quote c =
     (if c = quote \<or> c = CHR 0x5C then [CHR 0x5C, c]
      else if c = CHR 0x09 then [CHR 0x5C, CHR ''t'']
      else if c = CHR 0x0A then [CHR 0x5C, CHR ''n'']
      else if c = CHR 0x0D then [CHR 0x5C, CHR ''r'']
      else if isprintable c then [c]
      else [CHR 0x5C, CHR ''x'', hex_char (of_char c div 16), hex_char (of_char c mod 16)])"

definition repr_str :: "string \<Rightarrow> string" where
  "repr_str s =
     (let quote = (if CHR 0x27 \<in> set s \<and> CHR 0x22 \<notin> set s then CHR 0x22 else CHR 0x27)
      in [quote] @ concat (map (repr_char quote) s) @ [quote])"

fun join_py :: "string \<Rightarrow> string list \<Rightarrow> string" where
  "join_py sep [] = []"
| "join_py sep [x] = x"
| "join_py sep (x # y # ys) = x @ sep @ join_py sep (y # ys)"

definition repr_list :: "string list \<Rightarrow> string" where
  "repr_list xs = ''['' @ join_py '', '' (map repr_str xs) @ '']''"

section \<open>pathlib paths (POSIX flavour)\<close>

text \<open>
  \<open>Path(s)\<close> parses the text \<open>s\<close> into a root (\<open>''''\<close>, \<open>''/''\<close> or \<open>''//''\<close>) and the
  list of its components; empty components and \<open>''.''\<close> are dropped, \<open>''..''\<close> is kept.
  \<open>truediv\<close> is the operator \<open>/\<close>, \<open>path_name\<close> the property \<open>name\<close>, \<open>suffix\<close> the
  property \<open>suffix\<close> (the part of the name from its last dot, when that dot is neither the
  first nor the last character), \<open>parent\<close> the property \<open>parent\<close>.
\<close>

datatype pure_path = PurePath (root: string) (segments: "string list")

definition path_root :: "string \<Rightarrow> string" where
  "path_root s =
     (if take 2 s = ''//'' \<and> take 3 s \<noteq> ''///'' then ''//''
      else if take 1 s = ''/'' then ''/''
      else '''')"

definition Path :: "string \<Rightarrow> pure_path" where
  "Path s = PurePath (path_root s) (filter (\<lambda>p. p \<noteq> [] \<and> p \<noteq> ''.'') (split_py CHR ''/'' s))"

definition truediv :: "pure_path \<Rightarrow> pure_path \<Rightarrow> pure_path" where
  "truediv p q = (if root q \<noteq> [] then q else PurePath (root p) (segments p @ segments q))"

definition path_name :: "pure_path \<Rightarrow> string" where
  "path_name p = (if segments p = [] then [] else last (segments p))"

definition suffix :: "pure_path \<Rightarrow> string" where
  "suffix p =
     (let name = path_name p; i = rfind CHR ''.'' name
      in if 0 < i \<and> i < int (length name) - 1 then drop (nat i) name else [])"


definition str_path :: "pure_path \<Rightarrow> string" where
  "str_path p =
     (if root p = [] \<and> segments p = [] then ''.''
      else root p @ join_py ''/'' (segments p))"

section \<open>Exceptions, responses and the state of the service\<close>

text \<open>
  An exception is its class and its text \<open>str(e)\<close>. Only the classes the handlers
  distinguish are kept apart: \<open>IntegrityError\<close> (sqlalchemy) and \<open>AttributeError\<close>;
  every other subclass of \<open>Exception\<close> is \<open>OtherException\<close>.
  A handler fails either with an \<open>HTTPException\<close> it raises itself (status code and
  detail) or with an exception that no clause catches (\<open>Uncaught\<close>).
\<close>

datatype exn_class = IntegrityError | AttributeError | OtherException

datatype exn = Exn (exn_class: exn_class) (str_exn: string)

datatype failure = HTTPException nat string | Uncaught exn

datatype json =
    JNull
  | JString string
  | JInt int
  | JBool bool
  | JList "json list"
  | JDict "(string \<times> json) list"

text \<open>A naive \<open>datetime\<close> and its \<open>isoformat()\<close>.\<close>

record datetime =
  year :: nat
  month :: nat
  day :: nat
  hour :: nat
  minute :: nat
  second :: nat
  microsecond :: nat

definition zfill :: "nat \<Rightarrow> string \<Rightarrow> string" where
  "zfill n s = replicate (n - length s) CHR ''0'' @ s"

definition isoformat :: "datetime \<Rightarrow> string" where
  "isoformat d =
     zfill 4 (str_nat (year d)) @ ''-'' @ zfill 2 (str_nat (month d)) @ ''-'' @
     zfill 2 (str_nat (day d)) @ ''T'' @ zfill 2 (str_nat (hour d)) @ '':'' @
     zfill 2 (str_nat (minute d)) @ '':'' @ zfill 2 (str_nat (second d)) @
     (if microsecond d = 0 then [] else ''.'' @ zfill 6 (str_nat (microsecond d)))"

text \<open>A row of the Source table, with the columns \<open>list_files\<close> reads.\<close>

record source =
  src_id :: string
  src_name :: string
  src_path :: string
  src_size :: int
  src_user :: string
  src_date_created :: datetime
  src_note :: json

text \<open>
  The state the handlers act on: the regular files on disk, the rows of the Source table of
  the index, the background tasks added so far (\<open>file_id\<close>, \<open>tmp_path\<close>, \<open>user_id\<close>),
  the lines printed and the messages logged.
\<close>

record world =
  files :: "pure_path \<rightharpoonup> bytes"
  sources :: "source list"
  db_fault :: "exn option"
  tasks :: "(string \<times> pure_path \<times> string) list"
  printed :: "string list"
  logged :: "string list"

definition write_bytes :: "pure_path \<Rightarrow> bytes \<Rightarrow> world \<Rightarrow> world" where
  "write_bytes p data w = w\<lparr>files := (files w)(p \<mapsto> data)\<rparr>"

definition unlink :: "pure_path \<Rightarrow> world \<Rightarrow> world" where
  \<comment> \<open>\<open>unlink(missing_ok=True)\<close>: a missing file is not an error\<close>
  "unlink p w = w\<lparr>files := (files w)(p := None)\<rparr>"

definition exists_path :: "pure_path \<Rightarrow> world \<Rightarrow> bool" where
  "exists_path p w = (files w p \<noteq> None)"

definition add_task :: "string \<Rightarrow> pure_path \<Rightarrow> string \<Rightarrow> world \<Rightarrow> world" where
  "add_task file_id tmp_path user_id w = w\<lparr>tasks := tasks w @ [(file_id, tmp_path, user_id)]\<rparr>"

definition print_line :: "string \<Rightarrow> world \<Rightarrow> world" where
  "print_line msg w = w\<lparr>printed := printed w @ [msg]\<rparr>"

definition logging_exception :: "string \<Rightarrow> world \<Rightarrow> world" where
  "logging_exception msg w = w\<lparr>logged := logged w @ [msg]\<rparr>"

definition session_get :: "world \<Rightarrow> source list \<Rightarrow> string \<Rightarrow> exn + source option" where
  \<comment> \<open>\<open>session.get(Source, file_id)\<close>: the row with that primary key, or \<open>None\<close>\<close>
  "session_get w rows fid =
     (case db_fault w of
        Some e \<Rightarrow> Inl e
      | None \<Rightarrow> Inr (find (\<lambda>r. src_id r = fid) rows))"

definition session_exec_select_all :: "world \<Rightarrow> source list \<Rightarrow> exn + source list" where
  \<comment> \<open>\<open>session.exec(select(Source)).all()\<close>: every row, no \<open>where\<close> clause\<close>
  "session_exec_select_all w rows =
     (case db_fault w of
        Some e \<Rightarrow> Inl e
      | None \<Rightarrow> Inr rows)"

section \<open>The collaborators outside the handlers\<close>

text \<open>
  \<open>ktem.index.file\<close> and \<open>flowsettings\<close> are imported by the handlers and are not part of
  the sources at hand, so each of their operations is a parameter: a function that returns a
  value or raises, and, where it writes, the state it leaves.
\<close>

record config =
  supported_file_types :: string
  max_file_size :: int
  UPLOAD_TEMP_DIR :: string

type_synonym document = string

record extra_info =
  file_name :: string
  file_id :: string
  collection :: string

record index_pipeline =
  FSPath :: pure_path
  collection_name :: string
  store_file :: "pure_path \<Rightarrow> world \<Rightarrow> (exn + string) \<times> world"
  get_id_if_exists :: "pure_path \<Rightarrow> world \<Rightarrow> exn + string option"
  load_data :: "pure_path \<Rightarrow> extra_info \<Rightarrow> world \<Rightarrow> exn + document list"
  handle_docs :: "document list \<Rightarrow> string \<Rightarrow> string \<Rightarrow> world \<Rightarrow> exn option \<times> world"
  finish :: "string \<Rightarrow> pure_path \<Rightarrow> world \<Rightarrow> exn option \<times> world"

record doc_pipeline =
  route :: "pure_path \<Rightarrow> exn + index_pipeline"

record query_pipeline =
  pipeline_search :: "string \<Rightarrow> int \<Rightarrow> exn + json"

record file_index =
  get_indexing_pipeline :: "string \<Rightarrow> exn + doc_pipeline"
  search :: "string \<Rightarrow> int \<Rightarrow> string \<Rightarrow> exn + json"
  get_query_pipeline :: "string \<Rightarrow> exn + query_pipeline"

text \<open>
  Modelled from the spec: the Source model that a resolved pipeline exposes
  (\<open>doc_pipeline.Source\<close> and \<open>index_pipeline.Source\<close>, defined in \<open>ktem.index.file\<close>,
  which is not among the sources) is the one SourceRecord table of the index ("relational
  tables for SourceRecord (per index)"), whatever the user the pipeline was resolved for.
\<close>

definition Source_rows :: "'pipeline \<Rightarrow> world \<Rightarrow> source list" where
  "Source_rows pipeline w = sources w"

section \<open>The upload endpoint\<close>

definition allowed_exts :: "config \<Rightarrow> string list" where
  "allowed_exts cfg =
     map (\<lambda>e. lower (strip e))
       (filter (\<lambda>e. strip e \<noteq> []) (split_py CHR '','' (supported_file_types cfg)))"

definition max_bytes :: "config \<Rightarrow> int" where
  "max_bytes cfg = max_file_size cfg * 1000000"

definition upload_filename :: "string \<Rightarrow> string" where
  "upload_filename fname = path_name (Path fname)"

definition upload_ext :: "string \<Rightarrow> string" where
  "upload_ext fname = lower (suffix (Path (upload_filename fname)))"

definition upload_temp_path :: "config \<Rightarrow> string \<Rightarrow> pure_path" where
  "upload_temp_path cfg fname = truediv (Path (UPLOAD_TEMP_DIR cfg)) (Path (upload_filename fname))"

text \<open>
  Lines 88 to 107 of \<open>upload_file\<close>: normalise the configuration, take the basename and
  the extension, validate, and only then write the content to the temporary location. The
  result is the rejection, or the filename, the temporary path and the state after the write.
  (\<open>mkdir(parents=True, exist_ok=True)\<close> creates directories only; the state records
  regular files.)
\<close>

definition upload_prepare ::
  "config \<Rightarrow> string \<Rightarrow> bytes \<Rightarrow> world \<Rightarrow> failure + (string \<times> pure_path \<times> world)" where
  "upload_prepare cfg fname contents w =
     (let filename = upload_filename fname;
          ext = upload_ext fname;
          size = int (length contents)
      in if ext \<notin> set (allowed_exts cfg) then
           Inl (HTTPException 400
             (''Unsupported file type: '' @ ext @ ''. Allowed: '' @ repr_list (allowed_exts cfg)))
         else if size > max_bytes cfg then
           Inl (HTTPException 400
             (''File too large: '' @ str_int size @ '' bytes (max '' @ str_int (max_bytes cfg) @ '')''))
         else
           let temp_path = upload_temp_path cfg fname
           in Inr (filename, temp_path, write_bytes temp_path contents w))"

definition truthy :: "string option \<Rightarrow> bool" where
  \<comment> \<open>Python's truth value of an \<open>Optional[str]\<close>: \<open>None\<close> and the empty string are false\<close>
  "truthy x = (case x of None \<Rightarrow> False | Some s \<Rightarrow> s \<noteq> [])"

definition accepted :: "string \<Rightarrow> string \<Rightarrow> json" where
  "accepted fid filename =
     JDict [(''status'', JString ''accepted''), (''file_id'', JString fid),
            (''filename'', JString filename)]"

definition upload_file ::
  "config \<Rightarrow> file_index \<Rightarrow> string \<Rightarrow> bytes \<Rightarrow> string \<Rightarrow> world \<Rightarrow> (failure + json) \<times> world" where
  "upload_file cfg fi fname contents user_id w =
     (case upload_prepare cfg fname contents w of
        Inl f \<Rightarrow> (Inl f, w)
      | Inr (filename, temp_path, w1) \<Rightarrow>
          (case get_indexing_pipeline fi user_id of
             Inl e \<Rightarrow> (Inl (Uncaught e), w1)
           | Inr dp \<Rightarrow>
               (case route dp temp_path of
                  Inl e \<Rightarrow> (Inl (Uncaught e), w1)
                | Inr ip \<Rightarrow>
                    (case store_file ip temp_path w1 of
                       (Inr fid, w2) \<Rightarrow>
                         (Inr (accepted fid filename), add_task fid temp_path user_id w2)
                     | (Inl e, w2) \<Rightarrow>
                         if exn_class e = IntegrityError then
                           (case get_id_if_exists ip temp_path w2 of
                              Inl e' \<Rightarrow> (Inl (Uncaught e'), w2)
                            | Inr existing \<Rightarrow>
                                if \<not> truthy existing then
                                  (Inl (HTTPException 500
                                     ''Duplicate record but could not find existing ID.''), w2)
                                else
                                  (Inr (accepted (the existing) filename),
                                   add_task (the existing) temp_path user_id w2))
                         else
                           (Inl (HTTPException 500 (''Failed to store file: '' @ str_exn e)),
                            logging_exception ''Failed to store file'' (unlink temp_path w2))))))"

section \<open>The background indexer\<close>

definition index_failure_message :: "string \<Rightarrow> pure_path \<Rightarrow> string" where
  "index_failure_message fid real_pdf =
     ''[index_failure] file_id='' @ fid @ '' missing on disk: '' @ str_path real_pdf"

definition background_index ::
  "file_index \<Rightarrow> string \<Rightarrow> pure_path \<Rightarrow> string \<Rightarrow> world \<Rightarrow> exn option \<times> world" where
  "background_index fi fid tmp_path user_id w =
     (case get_indexing_pipeline fi user_id of
        Inl e \<Rightarrow> (Some e, w)
      | Inr dp \<Rightarrow>
          (case route dp tmp_path of
             Inl e \<Rightarrow> (Some e, w)
           | Inr ip \<Rightarrow>
               (case session_get w (Source_rows ip w) fid of
                  Inl e \<Rightarrow> (Some e, w)
                | Inr None \<Rightarrow> (None, w)
                | Inr (Some src) \<Rightarrow>
                    (let real_pdf = truediv (FSPath ip) (Path (src_path src))
                     in if \<not> exists_path real_pdf w then
                          (None, print_line (index_failure_message fid real_pdf) w)
                        else
                          (let info = \<lparr>file_name = path_name tmp_path, file_id = fid,
                                       collection = collection_name ip\<rparr>
                           in case load_data ip tmp_path info w of
                                Inl e \<Rightarrow> (Some e, w)
                              | Inr docs \<Rightarrow>
                                  (case handle_docs ip docs fid (path_name tmp_path) w of
                                     (Some e, w1) \<Rightarrow> (Some e, w1)
                                   | (None, w1) \<Rightarrow> finish ip fid tmp_path w1))))))"

section \<open>The search endpoint\<close>

definition search_files ::
  "file_index \<Rightarrow> string \<Rightarrow> int \<Rightarrow> string \<Rightarrow> failure + json" where
  "search_files fi query top_k user_id =
     (let answer = (\<lambda>results.
            JDict [(''query'', JString query), (''top_k'', JInt top_k), (''results'', results)])
      in case search fi query top_k user_id of
           Inr results \<Rightarrow> Inr (answer results)
         | Inl e \<Rightarrow>
             if exn_class e = AttributeError then
               (case get_query_pipeline fi user_id of
                  Inl e' \<Rightarrow> Inl (Uncaught e')
                | Inr pipeline \<Rightarrow>
                    (case pipeline_search pipeline query top_k of
                       Inl e' \<Rightarrow> Inl (Uncaught e')
                     | Inr results \<Rightarrow> Inr (answer results)))
             else Inl (HTTPException 500 (''Search failed: '' @ str_exn e)))"

section \<open>The listing endpoint\<close>

definition source_dict :: "source \<Rightarrow> json" where
  "source_dict src =
     JDict [(''id'', JString (src_id src)), (''name'', JString (src_name src)),
            (''path'', JString (src_path src)), (''size'', JInt (src_size src)),
            (''user'', JString (src_user src)),
            (''created'', JString (isoformat (src_date_created src))),
            (''note'', src_note src)]"

definition list_files :: "file_index \<Rightarrow> string \<Rightarrow> world \<Rightarrow> failure + json" where
  "list_files fi user_id w =
     (case get_indexing_pipeline fi user_id of
        Inl e \<Rightarrow> Inl (Uncaught e)
      | Inr dp \<Rightarrow>
          (case session_exec_select_all w (Source_rows dp w) of
             Inl e \<Rightarrow> Inl (HTTPException 500 (''Could not list files: '' @ str_exn e))
           | Inr rows \<Rightarrow> Inr (JDict [(''files'', JList (map source_dict rows))])))"

section \<open>User creation\<close>

record user =
  u_id :: string
  u_username :: string
  u_admin :: bool
  u_username_lower :: string
  u_password :: string

text \<open>
  The request body \<open>UserCreate\<close>. A request that leaves \<open>admin\<close> out carries the default
  \<open>False\<close>; an explicit \<open>null\<close> is not modelled.
\<close>

record user_create =
  in_username :: string
  in_password :: string
  in_admin :: bool

definition session_commit_user :: "user \<Rightarrow> user list \<Rightarrow> exn + user list" where
  \<comment> \<open>\<open>session.add(user); session.commit()\<close> on a table whose \<open>id\<close> is the primary key
      and whose \<open>username_lower\<close> is unique\<close>
  "session_commit_user u users =
     (if \<exists>x \<in> set users. u_id x = u_id u then
        Inl (Exn IntegrityError ''UNIQUE constraint failed: user.id'')
      else if \<exists>x \<in> set users. u_username_lower x = u_username_lower u then
        Inl (Exn IntegrityError ''UNIQUE constraint failed: user.username_lower'')
      else Inr (users @ [u]))"

definition UserRead_from_orm :: "user \<Rightarrow> json" where
  "UserRead_from_orm u =
     JDict [(''id'', JString (u_id u)), (''username'', JString (u_username u)),
            (''admin'', JBool (u_admin u))]"

text \<open>
  \<open>create_user\<close>; \<open>sha256_hexdigest\<close> stands for \<open>hashlib.sha256(...).hexdigest()\<close> and
  \<open>uuid4\<close> for the value the \<open>default_factory\<close> of \<open>User.id\<close> draws. The result is the
  failure, or the status code and the body, and the table afterwards.
\<close>

definition create_user ::
  "(string \<Rightarrow> string) \<Rightarrow> string \<Rightarrow> user_create \<Rightarrow> user list
     \<Rightarrow> (failure + nat \<times> json) \<times> user list" where
  "create_user sha256_hexdigest uuid4 user_in users =
     (let user_in_lower = lower (in_username user_in);
          hashed = sha256_hexdigest (in_password user_in)
      in case find (\<lambda>u. u_username_lower u = user_in_lower) users of
           Some existing \<Rightarrow>
             (Inl (HTTPException 400
                (''Username '' @ [CHR 0x27] @ in_username user_in @ [CHR 0x27] @ '' already exists.'')),
              users)
         | None \<Rightarrow>
             (let u = \<lparr>u_id = uuid4, u_username = in_username user_in,
                       u_admin = in_admin user_in, u_username_lower = user_in_lower,
                       u_password = hashed\<rparr>
              in case session_commit_user u users of
                   Inl e \<Rightarrow> (Inl (Uncaught e), users)
                 | Inr users' \<Rightarrow> (Inr (201, UserRead_from_orm u), users')))"

definition users_consistent :: "user list \<Rightarrow> bool" where
  \<comment> \<open>every row carries the lowercased form of its own username, as \<open>create_user\<close> writes it\<close>
  "users_consistent users = list_all (\<lambda>u. u_username_lower u = lower (u_username u)) users"

section \<open>Concrete collaborators and states\<close>

text \<open>
  A configuration, a state and a family of file indexes whose pipeline answers
  \<open>store_file\<close> and \<open>get_id_if_exists\<close> with given outcomes; the theorems below are
  instantiated on them.
\<close>

definition example_config :: config where
  "example_config =
     \<lparr>supported_file_types = ''.pdf, .TXT ,,.md'', max_file_size = 1,
      UPLOAD_TEMP_DIR = ''/tmp/uploads''\<rparr>"

definition example_world :: world where
  "example_world =
     \<lparr>files = Map.empty, sources = [], db_fault = None, tasks = [], printed = [], logged = []\<rparr>"

definition example_pipeline :: "exn + string \<Rightarrow> exn + string option \<Rightarrow> index_pipeline" where
  "example_pipeline stored existing =
     \<lparr>FSPath = Path ''/data/files'', collection_name = ''index_1'',
      store_file = (\<lambda>p w. (stored, w)),
      get_id_if_exists = (\<lambda>p w. existing),
      load_data = (\<lambda>p info w. Inr [''page 1'']),
      handle_docs = (\<lambda>docs fid name w. (None, w)),
      finish = (\<lambda>fid p w. (None, w))\<rparr>"

definition example_index :: "exn + string \<Rightarrow> exn + string option \<Rightarrow> file_index" where
  "example_index stored existing =
     \<lparr>get_indexing_pipeline = (\<lambda>user_id. Inr \<lparr>route = (\<lambda>p. Inr (example_pipeline stored existing))\<rparr>),
      search = (\<lambda>query top_k user_id. Inl (Exn AttributeError ''no attribute search'')),
      get_query_pipeline = (\<lambda>user_id. Inr \<lparr>pipeline_search = (\<lambda>query top_k. Inr (JList []))\<rparr>)\<rparr>"

definition example_source :: source where
  "example_source =
     \<lparr>src_id = ''id-1'', src_name = ''report.final.PDF'', src_path = ''9f86d081'',
      src_size = 4, src_user = ''alice'',
      src_date_created =
        \<lparr>year = 2024, month = 5, day = 17, hour = 9, minute = 3, second = 41, microsecond = 0\<rparr>,
      src_note = JDict []\<rparr>"

definition indexed_world :: world where
  \<comment> \<open>one Source row whose content-addressed file is not on disk; the temporary copy is\<close>
  "indexed_world =
     \<lparr>files = [PurePath ''/'' [''tmp'', ''uploads'', ''report.final.PDF''] \<mapsto> ''%PDF''],
      sources = [example_source], db_fault = None, tasks = [], printed = [], logged = []\<rparr>"

definition failing_search_index :: file_index where
  \<comment> \<open>no direct search capability, and a query pipeline whose search raises\<close>
  "failing_search_index =
     \<lparr>get_indexing_pipeline = (\<lambda>user_id. Inl (Exn OtherException ''unused'')),
      search = (\<lambda>query top_k user_id. Inl (Exn AttributeError ''no attribute search'')),
      get_query_pipeline =
        (\<lambda>user_id. Inr \<lparr>pipeline_search = (\<lambda>query top_k. Inl (Exn OtherException ''boom''))\<rparr>)\<rparr>"

definition example_digest :: "string \<Rightarrow> string" where
  \<comment> \<open>a stand-in for the digest, enough to run \<open>create_user\<close>\<close>
  "example_digest s = ''sha256:'' @ s"

definition example_users :: "user list" where
  "example_users =
     [\<lparr>u_id = ''u-1'', u_username = ''Alice'', u_admin = True, u_username_lower = ''alice'',
       u_password = ''sha256:secret''\<rparr>]"

section \<open>Facts about strings and paths\<close>








section \<open>Facts about the upload endpoint\<close>

lemma upload_prepare_rejects:
  assumes "upload_ext fname \<notin> set (allowed_exts cfg) \<or> int (length contents) > max_bytes cfg"
  shows "\<exists>detail. upload_prepare cfg fname contents w = Inl (HTTPException 400 detail)"
  using assms by (auto simp: upload_prepare_def Let_def)

lemma upload_prepare_Inr:
  assumes "upload_prepare cfg fname contents w = Inr (filename, temp_path, w1)"
  shows "filename = upload_filename fname \<and> temp_path = upload_temp_path cfg fname \<and>
         w1 = write_bytes temp_path contents w \<and> upload_ext fname \<in> set (allowed_exts cfg) \<and>
         int (length contents) \<le> max_bytes cfg"
  using assms by (auto simp: upload_prepare_def Let_def split: if_splits)



lemma upload_file_resolved:
  assumes "upload_prepare cfg fname contents w = Inr (filename, temp_path, w1)"
    and "get_indexing_pipeline fi user_id = Inr dp"
    and "route dp temp_path = Inr ip"
    and "store_file ip temp_path w1 = (r, w2)"
  shows "upload_file cfg fi fname contents user_id w =
     (case r of
        Inr fid \<Rightarrow> (Inr (accepted fid filename), add_task fid temp_path user_id w2)
      | Inl e \<Rightarrow>
          if exn_class e = IntegrityError then
            (case get_id_if_exists ip temp_path w2 of
               Inl e' \<Rightarrow> (Inl (Uncaught e'), w2)
             | Inr existing \<Rightarrow>
                 if \<not> truthy existing then
                   (Inl (HTTPException 500 ''Duplicate record but could not find existing ID.''), w2)
                 else
                   (Inr (accepted (the existing) filename),
                    add_task (the existing) temp_path user_id w2))
          else
            (Inl (HTTPException 500 (''Failed to store file: '' @ str_exn e)),
             logging_exception ''Failed to store file'' (unlink temp_path w2)))"
  using assms by (simp add: upload_file_def split: sum.splits)

text \<open>The running example: a traversal-laden name with an upper-case extension.\<close>

lemma example_allowed_exts: "allowed_exts example_config = [''.pdf'', ''.txt'', ''.md'']"
  by code_simp

lemma example_max_bytes: "max_bytes example_config = 1000000"
  by code_simp

lemma example_upload_ext: "upload_ext ''../a/./report.final.PDF/'' = ''.pdf''"
  by code_simp

lemma example_upload_filename: "upload_filename ''../a/./report.final.PDF/'' = ''report.final.PDF''"
  by code_simp

lemma example_upload_temp_path:
  "upload_temp_path example_config ''../a/./report.final.PDF/'' =
     PurePath ''/'' [''tmp'', ''uploads'', ''report.final.PDF'']"
  by code_simp

lemma example_upload_prepare:
  "upload_prepare example_config ''../a/./report.final.PDF/'' ''%PDF'' example_world =
     Inr (''report.final.PDF'', PurePath ''/'' [''tmp'', ''uploads'', ''report.final.PDF''],
          write_bytes (PurePath ''/'' [''tmp'', ''uploads'', ''report.final.PDF'']) ''%PDF''
            example_world)"
  by (simp add: upload_prepare_def example_allowed_exts example_max_bytes example_upload_ext
      example_upload_filename example_upload_temp_path Let_def)

lemma example_resolve:
  "get_indexing_pipeline (example_index stored existing) user_id =
     Inr \<lparr>route = (\<lambda>p. Inr (example_pipeline stored existing))\<rparr>"
  "route \<lparr>route = (\<lambda>p. Inr (example_pipeline stored existing))\<rparr> temp_path =
     Inr (example_pipeline stored existing)"
  "store_file (example_pipeline stored existing) temp_path w = (stored, w)"
  "get_id_if_exists (example_pipeline stored existing) temp_path w = existing"
  by (simp_all add: example_index_def example_pipeline_def)

section \<open>Facts about user creation\<close>

lemma find_lower_None:
  assumes "users_consistent users"
  shows "find (\<lambda>u. u_username_lower u = l) users = None \<longleftrightarrow>
         \<not> (\<exists>u \<in> set users. lower (u_username u) = l)"
  using assms by (auto simp: find_None_iff users_consistent_def list_all_iff)

lemma users_consistent_Nil: "users_consistent []"
  by (simp add: users_consistent_def)

lemma create_user_consistent:
  assumes "users_consistent users"
  shows "users_consistent (snd (create_user h uuid4 user_in users))"
  using assms
  by (auto simp: create_user_def session_commit_user_def users_consistent_def Let_def
      split: option.splits)

section \<open>Facts about the background indexer\<close>

lemma background_index_resolved:
  assumes "get_indexing_pipeline fi user_id = Inr dp"
    and "route dp tmp_path = Inr ip"
    and "db_fault w = None"
  shows "background_index fi fid tmp_path user_id w =
     (case find (\<lambda>r. src_id r = fid) (sources w) of
        None \<Rightarrow> (None, w)
      | Some src \<Rightarrow>
          (let real_pdf = truediv (FSPath ip) (Path (src_path src))
           in if \<not> exists_path real_pdf w then
                (None, print_line (index_failure_message fid real_pdf) w)
              else
                (let info = \<lparr>file_name = path_name tmp_path, file_id = fid,
                             collection = collection_name ip\<rparr>
                 in case load_data ip tmp_path info w of
                      Inl e \<Rightarrow> (Some e, w)
                    | Inr docs \<Rightarrow>
                        (case handle_docs ip docs fid (path_name tmp_path) w of
                           (Some e, w1) \<Rightarrow> (Some e, w1)
                         | (None, w1) \<Rightarrow> finish ip fid tmp_path w1))))"
  using assms
  by (simp add: background_index_def session_get_def Source_rows_def split: option.splits)

lemma example_indexed_world:
  "db_fault indexed_world = None"
  "sources indexed_world = [example_source]"
  "printed indexed_world = []"
  "logged indexed_world = []"
  by (simp_all add: indexed_world_def)



section \<open>Facts about the search endpoint\<close>

lemma search_files_direct:
  "search fi query top_k user_id = Inr results \<Longrightarrow>
   search_files fi query top_k user_id =
     Inr (JDict [(''query'', JString query), (''top_k'', JInt top_k), (''results'', results)])"
  by (simp add: search_files_def)

lemma search_files_direct_failure:
  "search fi query top_k user_id = Inl e \<Longrightarrow> exn_class e \<noteq> AttributeError \<Longrightarrow>
   search_files fi query top_k user_id = Inl (HTTPException 500 (''Search failed: '' @ str_exn e))"
  by (simp add: search_files_def)

lemma search_files_fallback:
  "search fi query top_k user_id = Inl e \<Longrightarrow> exn_class e = AttributeError \<Longrightarrow>
   get_query_pipeline fi user_id = Inr pipeline \<Longrightarrow>
   pipeline_search pipeline query top_k = Inr results \<Longrightarrow>
   search_files fi query top_k user_id =
     Inr (JDict [(''query'', JString query), (''top_k'', JInt top_k), (''results'', results)])"
  by (simp add: search_files_def)

section \<open>The claims\<close>

text \<open>
  C1. An upload whose lowercased extension is not in the configured allow-list, or whose
  content is larger than the configured maximum, is answered with a 400 rejection, and the
  state is the one before the request: validation comes before the write, so no temporary
  file is created (and nothing else is touched either).
\<close>

theorem upload_rejects_before_write:
  assumes "upload_ext fname \<notin> set (allowed_exts cfg) \<or> int (length contents) > max_bytes cfg"
  shows "\<exists>detail. upload_file cfg fi fname contents user_id w = (Inl (HTTPException 400 detail), w)"
proof -
  obtain detail where "upload_prepare cfg fname contents w = Inl (HTTPException 400 detail)"
    using upload_prepare_rejects [OF assms] by blast
  then show ?thesis by (simp add: upload_file_def)
qed

theorem upload_rejects_before_write_witness:
  "upload_ext ''../evil.EXE'' \<notin> set (allowed_exts example_config) \<and>
   (\<exists>detail. upload_file example_config (example_index (Inr ''id-1'') (Inr None))
        ''../evil.EXE'' ''MZ'' ''api'' example_world
      = (Inl (HTTPException 400 detail), example_world)) \<and>
   int (length (replicate 1000001 CHR ''a'')) > max_bytes example_config \<and>
   (\<exists>detail. upload_file example_config (example_index (Inr ''id-1'') (Inr None))
        ''../a/./report.final.PDF/'' (replicate 1000001 CHR ''a'') ''api'' example_world
      = (Inl (HTTPException 400 detail), example_world))"
proof -
  have e: "upload_ext ''../evil.EXE'' \<notin> set (allowed_exts example_config)"
    by code_simp
  have s: "int (length (replicate 1000001 CHR ''a'')) > max_bytes example_config"
    by (simp add: example_max_bytes)
  have h1: "upload_ext ''../evil.EXE'' \<notin> set (allowed_exts example_config) \<or>
            int (length ''MZ'') > max_bytes example_config"
    using e by simp
  have h2: "upload_ext ''../a/./report.final.PDF/'' \<notin> set (allowed_exts example_config) \<or>
            int (length (replicate 1000001 CHR ''a'')) > max_bytes example_config"
    using s by simp
  show ?thesis
    using e s upload_rejects_before_write [OF h1] upload_rejects_before_write [OF h2]
    by blast
qed





text \<open>
  C6. When \<open>store_file\<close> raises anything but \<open>IntegrityError\<close>, the upload removes the
  temporary file (\<open>unlink(missing_ok=True)\<close>, so a missing file is no error), logs the
  failure and fails with the 500 whose detail is "Failed to store file: " followed by the
  text of the exception.
\<close>

theorem upload_storage_error_cleans_up:
  assumes "upload_prepare cfg fname contents w = Inr (filename, temp_path, w1)"
    and "get_indexing_pipeline fi user_id = Inr dp"
    and "route dp temp_path = Inr ip"
    and "store_file ip temp_path w1 = (Inl e, w2)"
    and "exn_class e \<noteq> IntegrityError"
  shows "upload_file cfg fi fname contents user_id w =
           (Inl (HTTPException 500 (''Failed to store file: '' @ str_exn e)),
            logging_exception ''Failed to store file'' (unlink temp_path w2)) \<and>
         files (snd (upload_file cfg fi fname contents user_id w)) = (files w2)(temp_path := None) \<and>
         \<not> exists_path temp_path (snd (upload_file cfg fi fname contents user_id w))"
proof -
  note u = upload_file_resolved [OF assms(1-4)]
  show ?thesis
    using assms(5) by (simp add: u logging_exception_def unlink_def exists_path_def)
qed

theorem upload_storage_error_cleans_up_witness:
  "upload_file example_config
       (example_index (Inl (Exn OtherException ''disk full'')) (Inr None))
       ''../a/./report.final.PDF/'' ''%PDF'' ''api'' example_world =
     (Inl (HTTPException 500 ''Failed to store file: disk full''),
      logging_exception ''Failed to store file''
        (unlink (PurePath ''/'' [''tmp'', ''uploads'', ''report.final.PDF''])
           (write_bytes (PurePath ''/'' [''tmp'', ''uploads'', ''report.final.PDF'']) ''%PDF''
              example_world))) \<and>
   \<not> exists_path (PurePath ''/'' [''tmp'', ''uploads'', ''report.final.PDF''])
       (snd (upload_file example_config
          (example_index (Inl (Exn OtherException ''disk full'')) (Inr None))
          ''../a/./report.final.PDF/'' ''%PDF'' ''api'' example_world))"
proof -
  let ?e = "Exn OtherException ''disk full''"
  let ?tp = "PurePath ''/'' [''tmp'', ''uploads'', ''report.final.PDF'']"
  let ?w1 = "write_bytes ?tp ''%PDF'' example_world"
  have c: "exn_class ?e \<noteq> IntegrityError" by simp
  have r: "get_indexing_pipeline (example_index (Inl ?e) (Inr None)) ''api'' =
             Inr \<lparr>route = (\<lambda>p. Inr (example_pipeline (Inl ?e) (Inr None)))\<rparr>"
          "route \<lparr>route = (\<lambda>p. Inr (example_pipeline (Inl ?e) (Inr None)))\<rparr> ?tp =
             Inr (example_pipeline (Inl ?e) (Inr None))"
          "store_file (example_pipeline (Inl ?e) (Inr None)) ?tp ?w1 = (Inl ?e, ?w1)"
    by (simp_all add: example_resolve)
  note t = upload_storage_error_cleans_up [OF example_upload_prepare r(1) r(2) r(3) c]
  have m: "''Failed to store file: '' @ str_exn ?e = ''Failed to store file: disk full''"
    by simp
  from t have t1: "upload_file example_config (example_index (Inl ?e) (Inr None))
       ''../a/./report.final.PDF/'' ''%PDF'' ''api'' example_world =
     (Inl (HTTPException 500 (''Failed to store file: '' @ str_exn ?e)),
      logging_exception ''Failed to store file'' (unlink ?tp ?w1))"
    by (rule conjunct1)
  from t have t2: "\<not> exists_path ?tp (snd (upload_file example_config
          (example_index (Inl ?e) (Inr None))
          ''../a/./report.final.PDF/'' ''%PDF'' ''api'' example_world))"
    by blast
  show ?thesis using t1 t2 unfolding m by blast
qed

text \<open>
  C10. When \<open>store_file\<close> raises \<open>IntegrityError\<close> and the lookup finds no id, the upload
  fails with the 500 "Duplicate record but could not find existing ID." and leaves the state
  as \<open>store_file\<close> left it: nothing is unlinked, so the temporary file written before (and
  not touched by \<open>store_file\<close>) is still on disk with the uploaded content. On the other
  failures of \<open>store_file\<close>, with any index, the same temporary path is gone afterwards.
\<close>

theorem upload_dedupe_failure_keeps_temp_file:
  assumes "upload_prepare cfg fname contents w = Inr (filename, temp_path, w1)"
    and "get_indexing_pipeline fi user_id = Inr dp"
    and "route dp temp_path = Inr ip"
    and "store_file ip temp_path w1 = (Inl e, w2)"
    and "exn_class e = IntegrityError"
    and "get_id_if_exists ip temp_path w2 = Inr existing"
    and "\<not> truthy existing"
    and "files w2 temp_path = files w1 temp_path"
  shows "upload_file cfg fi fname contents user_id w =
           (Inl (HTTPException 500 ''Duplicate record but could not find existing ID.''), w2) \<and>
         files (snd (upload_file cfg fi fname contents user_id w)) temp_path = Some contents \<and>
         exists_path temp_path (snd (upload_file cfg fi fname contents user_id w)) \<and>
         (\<forall>fi' dp' ip' e' w2'.
            get_indexing_pipeline fi' user_id = Inr dp' \<and> route dp' temp_path = Inr ip' \<and>
            store_file ip' temp_path w1 = (Inl e', w2') \<and> exn_class e' \<noteq> IntegrityError \<longrightarrow>
            \<not> exists_path temp_path (snd (upload_file cfg fi' fname contents user_id w)))"
proof -
  note u = upload_file_resolved [OF assms(1-4)]
  have "w1 = write_bytes temp_path contents w"
    using upload_prepare_Inr [OF assms(1)] by simp
  then have "files w1 temp_path = Some contents" by (simp add: write_bytes_def)
  then have a: "upload_file cfg fi fname contents user_id w =
           (Inl (HTTPException 500 ''Duplicate record but could not find existing ID.''), w2) \<and>
         files (snd (upload_file cfg fi fname contents user_id w)) temp_path = Some contents \<and>
         exists_path temp_path (snd (upload_file cfg fi fname contents user_id w))"
    using assms(5-8) by (simp add: u exists_path_def)
  have b: "\<not> exists_path temp_path (snd (upload_file cfg fi' fname contents user_id w))"
    if "get_indexing_pipeline fi' user_id = Inr dp'" "route dp' temp_path = Inr ip'"
       "store_file ip' temp_path w1 = (Inl e', w2')" "exn_class e' \<noteq> IntegrityError"
    for fi' dp' ip' e' w2'
    using upload_file_resolved [OF assms(1) that(1) that(2) that(3)] that(4)
    by (simp add: logging_exception_def unlink_def exists_path_def)
  show ?thesis using a b by blast
qed

theorem upload_dedupe_failure_keeps_temp_file_witness:
  "upload_file example_config
       (example_index (Inl (Exn IntegrityError ''UNIQUE constraint failed'')) (Inr None))
       ''../a/./report.final.PDF/'' ''%PDF'' ''api'' example_world =
     (Inl (HTTPException 500 ''Duplicate record but could not find existing ID.''),
      write_bytes (PurePath ''/'' [''tmp'', ''uploads'', ''report.final.PDF'']) ''%PDF''
        example_world) \<and>
   files (snd (upload_file example_config
       (example_index (Inl (Exn IntegrityError ''UNIQUE constraint failed'')) (Inr None))
       ''../a/./report.final.PDF/'' ''%PDF'' ''api'' example_world))
     (PurePath ''/'' [''tmp'', ''uploads'', ''report.final.PDF'']) = Some ''%PDF'' \<and>
   \<not> exists_path (PurePath ''/'' [''tmp'', ''uploads'', ''report.final.PDF''])
       (snd (upload_file example_config
          (example_index (Inl (Exn OtherException ''disk full'')) (Inr None))
          ''../a/./report.final.PDF/'' ''%PDF'' ''api'' example_world))"
proof -
  let ?e = "Exn IntegrityError ''UNIQUE constraint failed''"
  let ?e' = "Exn OtherException ''disk full''"
  let ?tp = "PurePath ''/'' [''tmp'', ''uploads'', ''report.final.PDF'']"
  let ?w1 = "write_bytes ?tp ''%PDF'' example_world"
  have c: "exn_class ?e = IntegrityError" and c': "exn_class ?e' \<noteq> IntegrityError"
    by simp_all
  have n: "\<not> truthy None" by (simp add: truthy_def)
  have r: "get_indexing_pipeline (example_index (Inl x) (Inr None)) ''api'' =
             Inr \<lparr>route = (\<lambda>p. Inr (example_pipeline (Inl x) (Inr None)))\<rparr>"
          "route \<lparr>route = (\<lambda>p. Inr (example_pipeline (Inl x) (Inr None)))\<rparr> ?tp =
             Inr (example_pipeline (Inl x) (Inr None))"
          "store_file (example_pipeline (Inl x) (Inr None)) ?tp ?w1 = (Inl x, ?w1)"
          "get_id_if_exists (example_pipeline (Inl x) (Inr None)) ?tp ?w1 = Inr None" for x
    by (simp_all add: example_resolve)
  note t = upload_dedupe_failure_keeps_temp_file
    [OF example_upload_prepare r(1) r(2) r(3) c r(4) n refl]
  from t have t1: "upload_file example_config (example_index (Inl ?e) (Inr None))
       ''../a/./report.final.PDF/'' ''%PDF'' ''api'' example_world =
     (Inl (HTTPException 500 ''Duplicate record but could not find existing ID.''), ?w1)"
    by (rule conjunct1)
  from t have t2: "files (snd (upload_file example_config (example_index (Inl ?e) (Inr None))
       ''../a/./report.final.PDF/'' ''%PDF'' ''api'' example_world)) ?tp = Some ''%PDF''"
    by blast
  from t have "get_indexing_pipeline (example_index (Inl ?e') (Inr None)) ''api'' =
                 Inr \<lparr>route = (\<lambda>p. Inr (example_pipeline (Inl ?e') (Inr None)))\<rparr> \<and>
               route \<lparr>route = (\<lambda>p. Inr (example_pipeline (Inl ?e') (Inr None)))\<rparr> ?tp =
                 Inr (example_pipeline (Inl ?e') (Inr None)) \<and>
               store_file (example_pipeline (Inl ?e') (Inr None)) ?tp ?w1 = (Inl ?e', ?w1) \<and>
               exn_class ?e' \<noteq> IntegrityError \<longrightarrow>
               \<not> exists_path ?tp (snd (upload_file example_config
                  (example_index (Inl ?e') (Inr None))
                  ''../a/./report.final.PDF/'' ''%PDF'' ''api'' example_world))"
    by blast
  then have t3: "\<not> exists_path ?tp (snd (upload_file example_config
                  (example_index (Inl ?e') (Inr None))
                  ''../a/./report.final.PDF/'' ''%PDF'' ''api'' example_world))"
    using r(1) [of ?e'] r(2) [of ?e'] r(3) [of ?e'] c' by blast
  show ?thesis using t1 t2 t3 by blast
qed



text \<open>
  C5. For a fixed state, and two user ids for which the pipeline resolves, the listing
  returns the same answer; with the database in order that answer is every row of the
  Source table, serialised in table order: no row is filtered by user.
\<close>

theorem list_files_ignores_user:
  assumes "get_indexing_pipeline fi u1 = Inr dp1"
    and "get_indexing_pipeline fi u2 = Inr dp2"
  shows "list_files fi u1 w = list_files fi u2 w \<and>
         (db_fault w = None \<longrightarrow>
            list_files fi u1 w = Inr (JDict [(''files'', JList (map source_dict (sources w)))]))"
  using assms by (simp add: list_files_def session_exec_select_all_def Source_rows_def)

theorem list_files_ignores_user_witness:
  "list_files (example_index (Inr ''id-1'') (Inr None)) ''bob'' indexed_world =
     list_files (example_index (Inr ''id-1'') (Inr None)) ''alice'' indexed_world \<and>
   list_files (example_index (Inr ''id-1'') (Inr None)) ''bob'' indexed_world =
     Inr (JDict [(''files'', JList [source_dict example_source])]) \<and>
   src_user example_source = ''alice''"
proof -
  let ?fi = "example_index (Inr ''id-1'') (Inr None)"
  have r: "get_indexing_pipeline ?fi u =
             Inr \<lparr>route = (\<lambda>p. Inr (example_pipeline (Inr ''id-1'') (Inr None)))\<rparr>" for u
    by (simp add: example_resolve)
  note t = list_files_ignores_user [OF r [of "''bob''"] r [of "''alice''"], of indexed_world]
  have u: "src_user example_source = ''alice''" by (simp add: example_source_def)
  from t have t1: "list_files ?fi ''bob'' indexed_world = list_files ?fi ''alice'' indexed_world"
    by (rule conjunct1)
  from t have t2: "list_files ?fi ''bob'' indexed_world =
      Inr (JDict [(''files'', JList (map source_dict (sources indexed_world)))])"
    using example_indexed_world(1) by blast
  have t3: "map source_dict (sources indexed_world) = [source_dict example_source]"
    by (simp add: example_indexed_world)
  show ?thesis using t1 t2 u unfolding t3 by blast
qed

text \<open>
  C9. On a table whose rows carry the lowercased form of their username (as every row
  written by \<open>create_user\<close> does), and with a fresh id drawn for the new row, user creation
  fails with the 400 "Username '...' already exists." exactly when some row's username equals
  the requested one after lowercasing, and then leaves the table alone; otherwise it answers
  201 with the new id, the username as it was sent and the admin flag, and appends the row.
  The body of a success has no \<open>password\<close> key.
\<close>

theorem create_user_duplicate_iff:
  assumes "users_consistent users" and "uuid4 \<notin> u_id ` set users"
  shows "((\<exists>u \<in> set users. lower (u_username u) = lower (in_username user_in)) \<longrightarrow>
            create_user h uuid4 user_in users =
              (Inl (HTTPException 400
                 (''Username '' @ [CHR 0x27] @ in_username user_in @ [CHR 0x27] @ '' already exists.'')),
               users)) \<and>
         (\<not> (\<exists>u \<in> set users. lower (u_username u) = lower (in_username user_in)) \<longrightarrow>
            create_user h uuid4 user_in users =
              (Inr (201, JDict [(''id'', JString uuid4),
                                (''username'', JString (in_username user_in)),
                                (''admin'', JBool (in_admin user_in))]),
               users @ [\<lparr>u_id = uuid4, u_username = in_username user_in,
                         u_admin = in_admin user_in,
                         u_username_lower = lower (in_username user_in),
                         u_password = h (in_password user_in)\<rparr>])) \<and>
         ((\<exists>d. fst (create_user h uuid4 user_in users) = Inl (HTTPException 400 d)) \<longleftrightarrow>
            (\<exists>u \<in> set users. lower (u_username u) = lower (in_username user_in))) \<and>
         (\<forall>code body. fst (create_user h uuid4 user_in users) = Inr (code, JDict body) \<longrightarrow>
            map_of body ''password'' = None)"
proof (cases "\<exists>u \<in> set users. lower (u_username u) = lower (in_username user_in)")
  case True
  then have "find (\<lambda>u. u_username_lower u = lower (in_username user_in)) users \<noteq> None"
    using find_lower_None [OF assms(1)] by blast
  then obtain x where "find (\<lambda>u. u_username_lower u = lower (in_username user_in)) users = Some x"
    by blast
  then have "create_user h uuid4 user_in users =
              (Inl (HTTPException 400
                 (''Username '' @ [CHR 0x27] @ in_username user_in @ [CHR 0x27] @ '' already exists.'')),
               users)"
    by (simp add: create_user_def)
  with True show ?thesis by simp
next
  case False
  then have f: "find (\<lambda>u. u_username_lower u = lower (in_username user_in)) users = None"
    using find_lower_None [OF assms(1)] by blast
  then have nl: "\<forall>x \<in> set users. u_username_lower x \<noteq> lower (in_username user_in)"
    by (auto simp: find_None_iff)
  have ni: "\<forall>x \<in> set users. u_id x \<noteq> uuid4" using assms(2) by auto
  have "create_user h uuid4 user_in users =
              (Inr (201, JDict [(''id'', JString uuid4),
                                (''username'', JString (in_username user_in)),
                                (''admin'', JBool (in_admin user_in))]),
               users @ [\<lparr>u_id = uuid4, u_username = in_username user_in,
                         u_admin = in_admin user_in,
                         u_username_lower = lower (in_username user_in),
                         u_password = h (in_password user_in)\<rparr>])"
    using f nl ni by (simp add: create_user_def session_commit_user_def UserRead_from_orm_def)
  with False show ?thesis by simp
qed

theorem create_user_duplicate_iff_witness:
  "users_consistent example_users \<and>
   create_user example_digest ''u-2''
       \<lparr>in_username = ''ALICE'', in_password = ''pw'', in_admin = False\<rparr> example_users =
     (Inl (HTTPException 400 ''Username 'ALICE' already exists.''), example_users) \<and>
   create_user example_digest ''u-2''
       \<lparr>in_username = ''Bob'', in_password = ''pw'', in_admin = False\<rparr> example_users =
     (Inr (201, JDict [(''id'', JString ''u-2''), (''username'', JString ''Bob''),
                       (''admin'', JBool False)]),
      example_users @ [\<lparr>u_id = ''u-2'', u_username = ''Bob'', u_admin = False,
                         u_username_lower = ''bob'', u_password = ''sha256:pw''\<rparr>])"
proof -
  have c: "users_consistent example_users" by code_simp
  have i: "''u-2'' \<notin> u_id ` set example_users" by (simp add: example_users_def)
  have la: "lower ''ALICE'' = ''alice''" and lb: "lower ''Bob'' = ''bob''"
    and l0: "lower ''Alice'' = ''alice''"
    by code_simp+
  have dup: "\<exists>u \<in> set example_users. lower (u_username u) =
               lower (in_username \<lparr>in_username = ''ALICE'', in_password = ''pw'', in_admin = False\<rparr>)"
    by (simp add: example_users_def la l0)
  have nodup: "\<not> (\<exists>u \<in> set example_users. lower (u_username u) =
               lower (in_username \<lparr>in_username = ''Bob'', in_password = ''pw'', in_admin = False\<rparr>))"
    by (simp add: example_users_def lb l0)
  note a = create_user_duplicate_iff [OF c i, of
      "\<lparr>in_username = ''ALICE'', in_password = ''pw'', in_admin = False\<rparr>" example_digest]
  note b = create_user_duplicate_iff [OF c i, of
      "\<lparr>in_username = ''Bob'', in_password = ''pw'', in_admin = False\<rparr>" example_digest]
  from a dup have a1: "create_user example_digest ''u-2''
       \<lparr>in_username = ''ALICE'', in_password = ''pw'', in_admin = False\<rparr> example_users =
     (Inl (HTTPException 400 (''Username '' @ [CHR 0x27] @
        in_username \<lparr>in_username = ''ALICE'', in_password = ''pw'', in_admin = False\<rparr> @
        [CHR 0x27] @ '' already exists.'')), example_users)"
    by blast
  from b nodup have b1: "create_user example_digest ''u-2''
       \<lparr>in_username = ''Bob'', in_password = ''pw'', in_admin = False\<rparr> example_users =
     (Inr (201, JDict [(''id'', JString ''u-2''),
          (''username'', JString (in_username \<lparr>in_username = ''Bob'', in_password = ''pw'', in_admin = False\<rparr>)),
          (''admin'', JBool (in_admin \<lparr>in_username = ''Bob'', in_password = ''pw'', in_admin = False\<rparr>))]),
      example_users @ [\<lparr>u_id = ''u-2'',
          u_username = in_username \<lparr>in_username = ''Bob'', in_password = ''pw'', in_admin = False\<rparr>,
          u_admin = in_admin \<lparr>in_username = ''Bob'', in_password = ''pw'', in_admin = False\<rparr>,
          u_username_lower = lower (in_username \<lparr>in_username = ''Bob'', in_password = ''pw'', in_admin = False\<rparr>),
          u_password = example_digest (in_password \<lparr>in_username = ''Bob'', in_password = ''pw'', in_admin = False\<rparr>)\<rparr>])"
    by blast
  show ?thesis using c a1 b1 by (simp add: lb example_digest_def)
qed

text \<open>
  C3 (the code departs from the claim). With no Source row for the file id the indexer
  returns without raising, and returns the state it was given: nothing is printed and
  nothing is logged, while the branch for a file missing on disk does print a line.
\<close>

theorem background_index_missing_record_not_logged:
  "background_index (example_index (Inr ''id-1'') (Inr None)) ''id-404''
       (PurePath ''/'' [''tmp'', ''uploads'', ''report.final.PDF'']) ''api'' indexed_world =
     (None, indexed_world) \<and>
   printed indexed_world = [] \<and> logged indexed_world = []"
proof -
  have "find (\<lambda>r. src_id r = ''id-404'') (sources indexed_world) = None"
    by (simp add: indexed_world_def example_source_def)
  then show ?thesis
    using background_index_resolved [OF example_resolve(1) example_resolve(2)
        example_indexed_world(1)]
    by (simp add: example_indexed_world)
qed

text \<open>
  C4 (the code departs from the claim). When the direct search raises \<open>AttributeError\<close> and
  the search through the query pipeline raises in turn, that second exception is raised
  inside the \<open>except AttributeError\<close> clause, where the \<open>except Exception\<close> clause of the same
  \<open>try\<close> does not apply: it leaves the handler uncaught, not as the 500 "Search failed: ...".
\<close>

theorem search_fallback_failure_uncaught:
  "search_files failing_search_index ''budget'' 5 ''api'' =
     Inl (Uncaught (Exn OtherException ''boom'')) \<and>
   search_files failing_search_index ''budget'' 5 ''api'' \<noteq>
     Inl (HTTPException 500 ''Search failed: boom'')"
  by (simp add: search_files_def failing_search_index_def)

end
